theory Spec2Isabelle
  imports Main "HOL-Library.Word"
begin

section \<open>Token verification and authorization of the media service (package auth)\<close>

text \<open>
  The development embeds the Go package \<^verbatim>\<open>auth\<close>: the caching JWKS client
  (\<^verbatim>\<open>NewJWKSClient\<close>, \<^verbatim>\<open>GetKeySet\<close>), the token verifier (\<^verbatim>\<open>VerifyToken\<close>) and the
  two gin handlers (\<^verbatim>\<open>AuthMiddleware\<close>, \<^verbatim>\<open>RequirePermissions\<close>).

  Go strings are byte strings, so \<^typ>\<open>string\<close> (a list of 8-bit characters) is used as it is.
  The pointer receiver \<^verbatim>\<open>*JWKSClient\<close> is shared mutable state; every operation that may
  touch it takes the client and returns the client it leaves behind. Each operation also
  returns the list of external effects it performed, so that "no network access" and "no
  signature verification" are statements about that list.

  The mutex of the client is not modelled: \<^verbatim>\<open>GetKeySet\<close> is embedded as the sequential
  composition of its two critical sections, each of which is atomic under the lock it holds.
\<close>

subsection \<open>Values of the dynamically typed claim mapping\<close>

text \<open>
  What \<^verbatim>\<open>encoding/json\<close> stores in an \<^verbatim>\<open>interface{}\<close>: nil, bool, float64, string,
  \<^verbatim>\<open>[]interface{}\<close> and \<^verbatim>\<open>map[string]interface{}\<close>. No branch of the package inspects a
  number, so numbers are carried as integers.
\<close>

datatype json =
    JNull
  | JBool bool
  | JNumber int
  | JString string
  | JArray "json list"
  | JObject "(string \<times> json) list"

type_synonym json_map = "string \<rightharpoonup> json"

subsection \<open>Formatting\<close>

text \<open>The verb \<^verbatim>\<open>%d\<close> of \<^verbatim>\<open>fmt\<close> on an integer: decimal digits, a minus sign when negative.\<close>

fun digits :: "nat \<Rightarrow> string" where
  "digits n =
     (if n < 10 then [''0123456789'' ! n]
      else digits (n div 10) @ [''0123456789'' ! (n mod 10)])"

declare digits.simps [simp del]

definition fmt_d :: "int \<Rightarrow> string" where
  "fmt_d i = (if i < 0 then CHR ''-'' # digits (nat (- i)) else digits (nat i))"

subsection \<open>Keys and key sets\<close>

text \<open>
  A \<^verbatim>\<open>jwk.Key\<close> is seen by the package through two methods only: its key identifier
  (compared by \<^verbatim>\<open>LookupKeyID\<close>) and \<^verbatim>\<open>Raw\<close>, which yields the public key or an error.
  A \<^verbatim>\<open>jwk.Set\<close> is the list of its keys; \<^verbatim>\<open>LookupKeyID\<close> returns the first key with
  the identifier.
\<close>

datatype raw_key = RawKey string

record jwk_key =
  KeyID :: string
  Raw :: "string + raw_key"

type_synonym jwk_set = "jwk_key list"

definition LookupKeyID :: "jwk_set \<Rightarrow> string \<Rightarrow> jwk_key option" where
  "LookupKeyID ks kid = find (\<lambda>k. KeyID k = kid) ks"

subsection \<open>Time\<close>

text \<open>
  An instant (\<^verbatim>\<open>time.Time\<close>) is a number of nanoseconds on one axis; \<^verbatim>\<open>Before\<close> is
  \<open><\<close>. A \<^verbatim>\<open>time.Duration\<close> is a signed 64-bit count of nanoseconds, and
  \<^verbatim>\<open>Add\<close> moves an instant by its signed value.
\<close>

type_synonym instant = int
type_synonym duration = "64 word"

definition Second :: duration where
  "Second = 1000000000"

definition Minute :: duration where
  "Minute = 60 * Second"

definition Add :: "instant \<Rightarrow> duration \<Rightarrow> instant" where
  "Add t d = t + sint d"

subsection \<open>The data of the package\<close>

record AuthContext =
  UserID :: string
  OrgID :: "string option"
  Roles :: "string list"
  Permissions :: "string list"
  Email :: "string option"
  Name :: "string option"

record Config =
  JWKSUrl :: string
  Issuer :: string
  Audience :: string
  JWKSCacheTTL :: int

text \<open>The field \<^verbatim>\<open>set\<close> of \<^verbatim>\<open>cachedJWKS\<close> is called \<open>set_jwks\<close> here.\<close>

record cachedJWKS =
  set_jwks :: jwk_set
  expiresAt :: instant

text \<open>
  \<^verbatim>\<open>JWKSClient\<close> without its mutex and its HTTP client (whose only setting is a timeout
  of ten seconds). A nil \<^verbatim>\<open>cache\<close> pointer is \<open>None\<close>.
\<close>

record JWKSClient =
  url :: string
  cache :: "cachedJWKS option"
  cacheTTL :: duration

subsection \<open>The libraries and the outside world\<close>

text \<open>
  The package calls into the Go standard library and three third-party modules whose code
  is not part of the repository. Their pure functions are parameters of the model,
  collected in one record; every theorem below holds for all of them. An error of a
  library is its message.

  \<^item> \<open>b64_DecodeString\<close>: \<^verbatim>\<open>base64.RawURLEncoding.DecodeString\<close>;
  \<^item> \<open>json_Unmarshal\<close>: \<^verbatim>\<open>json.Unmarshal\<close> into a \<^verbatim>\<open>map[string]interface{}\<close>;
  \<^item> \<open>url_Parse\<close>: \<^verbatim>\<open>url.Parse\<close>, as called by \<^verbatim>\<open>http.NewRequestWithContext\<close>
    (\<open>Some\<close> is the error);
  \<^item> \<open>jwk_ParseReader\<close>: \<^verbatim>\<open>jwk.ParseReader\<close> with \<^verbatim>\<open>jwk.WithPEM(true)\<close> on a response body;
  \<^item> \<open>jwt_Parse\<close>: \<^verbatim>\<open>jwt.Parse\<close> of \<^verbatim>\<open>golang-jwt/jwt/v5\<close> at an instant, on a token string and
    a key function;
  \<^item> \<open>fmt_v\<close>: the verb \<^verbatim>\<open>%v\<close> of \<^verbatim>\<open>fmt\<close> on a map entry (\<open>None\<close> when the key is absent).
\<close>

datatype signing_method =
    SigningMethodRSA
  | SigningMethodRSAPSS
  | SigningMethodECDSA
  | SigningMethodHMAC
  | SigningMethodEd25519
  | SigningMethodNone

record jwt_Token =
  Method :: signing_method
  Header :: json_map

datatype jwt_Claims = MapClaims json_map | OtherClaims

record lib =
  b64_DecodeString :: "string \<Rightarrow> string + string"
  json_Unmarshal :: "string \<Rightarrow> string + json_map"
  url_Parse :: "string \<Rightarrow> string option"
  jwk_ParseReader :: "string \<Rightarrow> string + jwk_set"
  jwt_Parse :: "instant \<Rightarrow> string \<Rightarrow> (jwt_Token \<Rightarrow> string + raw_key) \<Rightarrow> string + jwt_Claims"
  fmt_v :: "json option \<Rightarrow> string"

text \<open>
  A \<^verbatim>\<open>context.Context\<close> is an interface value and may be nil. Whether a non-nil context is
  cancelled shows only in the answer of the HTTP client.
\<close>

datatype go_context = NilContext | Context

record http_Response =
  StatusCode :: int
  Body :: string

text \<open>
  What the outside world answers during one call: the readings of \<^verbatim>\<open>time.Now()\<close> at
  lines 88, 98 and 133 of the source and inside \<^verbatim>\<open>jwt.Parse\<close>, and the outcome of
  \<^verbatim>\<open>httpClient.Do\<close> (an error message, or a response).
\<close>

record world =
  now1 :: instant
  now2 :: instant
  now3 :: instant
  now_jwt :: instant
  do_result :: "string + http_Response"

datatype event = HttpGet string | JwtParse string

fun is_HttpGet :: "event \<Rightarrow> bool" where
  "is_HttpGet (HttpGet u) = True"
| "is_HttpGet (JwtParse t) = False"

fun is_JwtParse :: "event \<Rightarrow> bool" where
  "is_JwtParse (HttpGet u) = False"
| "is_JwtParse (JwtParse t) = True"

subsection \<open>Errors\<close>

text \<open>One constructor for each \<^verbatim>\<open>fmt.Errorf\<close> of the package, with what it wraps.\<close>

datatype jwks_error =
    CreateRequestFailed string
  | FetchFailed string
  | BadStatus int
  | ParseFailed string

datatype verify_error =
    InvalidTokenFormat
  | HeaderDecodeFailed string
  | HeaderParseFailed string
  | MissingKid
  | GetJWKSFailed jwks_error
  | KeyNotFound string
  | PublicKeyFailed string
  | TokenVerificationFailed string
  | InvalidTokenClaims
  | InvalidIssuer
  | InvalidAudience
  | MissingSub

text \<open>\<^verbatim>\<open>err.Error()\<close>: the format strings of the source.\<close>

fun jwks_Error :: "jwks_error \<Rightarrow> string" where
  "jwks_Error (CreateRequestFailed e) = ''failed to create request: '' @ e"
| "jwks_Error (FetchFailed e) = ''failed to fetch JWKS: '' @ e"
| "jwks_Error (BadStatus n) = ''JWKS endpoint returned status '' @ fmt_d n"
| "jwks_Error (ParseFailed e) = ''failed to parse JWKS: '' @ e"

fun Error :: "verify_error \<Rightarrow> string" where
  "Error InvalidTokenFormat = ''invalid token format''"
| "Error (HeaderDecodeFailed e) = ''failed to decode token header: '' @ e"
| "Error (HeaderParseFailed e) = ''failed to parse token header: '' @ e"
| "Error MissingKid = ''token missing kid in header''"
| "Error (GetJWKSFailed e) = ''failed to get JWKS: '' @ jwks_Error e"
| "Error (KeyNotFound kid) = ''key not found for kid: '' @ kid"
| "Error (PublicKeyFailed e) = ''failed to get public key: '' @ e"
| "Error (TokenVerificationFailed e) = ''token verification failed: '' @ e"
| "Error InvalidTokenClaims = ''invalid token claims''"
| "Error InvalidIssuer = ''invalid issuer''"
| "Error InvalidAudience = ''invalid audience''"
| "Error MissingSub = ''token missing sub claim''"

subsection \<open>The key-set cache\<close>

definition NewJWKSClient :: "string \<Rightarrow> int \<Rightarrow> JWKSClient" where
  "NewJWKSClient u cacheTTLSeconds =
     (let ttl = word_of_int cacheTTLSeconds * Second
      in \<lparr>url = u, cache = None, cacheTTL = (if ttl = 0 then 15 * Minute else ttl)\<rparr>)"

text \<open>
  \<^verbatim>\<open>http.NewRequestWithContext(ctx, "GET", url, nil)\<close>: the method is valid, so the call
  fails exactly on a nil context or a URL that does not parse. \<open>None\<close> is success (the
  request itself carries nothing the package reads).
\<close>

definition NewRequestWithContext :: "lib \<Rightarrow> go_context \<Rightarrow> string \<Rightarrow> string option" where
  "NewRequestWithContext L ctx u =
     (if ctx = NilContext then Some ''net/http: nil Context'' else url_Parse L u)"

text \<open>The test \<^verbatim>\<open>c.cache != nil && time.Now().Before(c.cache.expiresAt)\<close>.\<close>

definition fresh :: "instant \<Rightarrow> cachedJWKS option \<Rightarrow> bool" where
  "fresh t co = (case co of None \<Rightarrow> False | Some k \<Rightarrow> t < expiresAt k)"

text \<open>
  The three failure branches of the fetch share one shape: the cached set when there is a
  cache, the error otherwise.
\<close>

definition stale_or :: "cachedJWKS option \<Rightarrow> jwks_error \<Rightarrow> jwks_error + jwk_set" where
  "stale_or co e = (case co of Some k \<Rightarrow> Inr (set_jwks k) | None \<Rightarrow> Inl e)"

text \<open>Lines 95 to 136: the section under the write lock.\<close>

definition GetKeySet_locked ::
  "lib \<Rightarrow> world \<Rightarrow> JWKSClient \<Rightarrow> go_context \<Rightarrow> (jwks_error + jwk_set) \<times> JWKSClient \<times> event list" where
  "GetKeySet_locked L w c ctx =
     (case (if fresh (now2 w) (cache c) then cache c else None) of
        Some k \<Rightarrow> (Inr (set_jwks k), c, [])
      | None \<Rightarrow>
         (case NewRequestWithContext L ctx (url c) of
            Some e \<Rightarrow> (Inl (CreateRequestFailed e), c, [])
          | None \<Rightarrow>
             (case do_result w of
                Inl e \<Rightarrow> (stale_or (cache c) (FetchFailed e), c, [HttpGet (url c)])
              | Inr resp \<Rightarrow>
                 if StatusCode resp \<noteq> 200
                 then (stale_or (cache c) (BadStatus (StatusCode resp)), c, [HttpGet (url c)])
                 else
                   (case jwk_ParseReader L (Body resp) of
                      Inl e \<Rightarrow> (stale_or (cache c) (ParseFailed e), c, [HttpGet (url c)])
                    | Inr s \<Rightarrow>
                       (Inr s,
                        c\<lparr>cache := Some \<lparr>set_jwks = s, expiresAt = Add (now3 w) (cacheTTL c)\<rparr>\<rparr>,
                        [HttpGet (url c)])))))"

text \<open>Lines 86 to 93, the section under the read lock, and then the locked section.\<close>

definition GetKeySet ::
  "lib \<Rightarrow> world \<Rightarrow> JWKSClient \<Rightarrow> go_context \<Rightarrow> (jwks_error + jwk_set) \<times> JWKSClient \<times> event list" where
  "GetKeySet L w c ctx =
     (case (if fresh (now1 w) (cache c) then cache c else None) of
        Some k \<Rightarrow> (Inr (set_jwks k), c, [])
      | None \<Rightarrow> GetKeySet_locked L w c ctx)"

text \<open>
  The states a client can be in: as \<^verbatim>\<open>NewJWKSClient\<close> returns it, and after any call of
  \<^verbatim>\<open>GetKeySet\<close> (the fields are unexported and nothing else writes them).
\<close>

inductive reachable :: "lib \<Rightarrow> JWKSClient \<Rightarrow> bool" for L :: lib where
  reachable_new: "reachable L (NewJWKSClient u n)"
| reachable_call: "reachable L c \<Longrightarrow> reachable L (fst (snd (GetKeySet L w c ctx)))"

subsection \<open>The token verifier\<close>

text \<open>\<^verbatim>\<open>strings.Split(s, sep)\<close> for a separator of one byte: one more part than separators.\<close>

fun Split :: "string \<Rightarrow> char \<Rightarrow> string list" where
  "Split [] sep = [[]]"
| "Split (x # xs) sep =
     (if x = sep then [] # Split xs sep
      else (case Split xs sep of [] \<Rightarrow> [[x]] | p # ps \<Rightarrow> (x # p) # ps))"

text \<open>
  The type assertions \<^verbatim>\<open>m[k].(string)\<close> and \<^verbatim>\<open>m[k].([]interface{})\<close> on a map entry; an
  absent key gives nil, which has neither type.
\<close>

definition as_string :: "json option \<Rightarrow> string option" where
  "as_string v = (case v of Some (JString s) \<Rightarrow> Some s | _ \<Rightarrow> None)"

definition as_array :: "json option \<Rightarrow> json list option" where
  "as_array v = (case v of Some (JArray xs) \<Rightarrow> Some xs | _ \<Rightarrow> None)"

text \<open>Lines 140 to 158: the header of the token, up to its key identifier.\<close>

definition VerifyToken_kid :: "lib \<Rightarrow> string \<Rightarrow> verify_error + string" where
  "VerifyToken_kid L tokenString =
     (let parts = Split tokenString (CHR ''.'') in
      if length parts \<noteq> 3 then Inl InvalidTokenFormat
      else
        (case b64_DecodeString L (parts ! 0) of
           Inl e \<Rightarrow> Inl (HeaderDecodeFailed e)
         | Inr headerBytes \<Rightarrow>
            (case json_Unmarshal L headerBytes of
               Inl e \<Rightarrow> Inl (HeaderParseFailed e)
             | Inr header \<Rightarrow>
                (case as_string (header ''kid'') of
                   None \<Rightarrow> Inl MissingKid
                 | Some kid \<Rightarrow> Inr kid))))"

text \<open>The key function handed to \<^verbatim>\<open>jwt.Parse\<close> (lines 175 to 180).\<close>

definition keyfunc :: "lib \<Rightarrow> raw_key \<Rightarrow> jwt_Token \<Rightarrow> string + raw_key" where
  "keyfunc L publicKey token =
     (if Method token \<noteq> SigningMethodRSA
      then Inl (''unexpected signing method: '' @ fmt_v L (Header token ''alg''))
      else Inr publicKey)"

text \<open>The loop of lines 199 to 204 over the entries of an audience array.\<close>

fun audience_found :: "string \<Rightarrow> json list \<Rightarrow> bool" where
  "audience_found audience [] = False"
| "audience_found audience (a # as) =
     (case a of
        JString aStr \<Rightarrow> if aStr = audience then True else audience_found audience as
      | _ \<Rightarrow> audience_found audience as)"

text \<open>The loops of lines 222 to 226 and 231 to 235: the string entries, in order.\<close>

fun string_entries :: "json list \<Rightarrow> string list" where
  "string_entries [] = []"
| "string_entries (r # rs) =
     (case r of JString rStr \<Rightarrow> rStr # string_entries rs | _ \<Rightarrow> string_entries rs)"

definition string_list_claim :: "json_map \<Rightarrow> string \<Rightarrow> string list" where
  "string_list_claim claims k =
     (case as_array (claims k) of Some xs \<Rightarrow> string_entries xs | None \<Rightarrow> [])"

text \<open>Lines 216, 239 and 244: a string claim, with the empty string counted as absent.\<close>

definition optional_string_claim :: "json_map \<Rightarrow> string \<Rightarrow> string option" where
  "optional_string_claim claims k =
     (case as_string (claims k) of
        Some s \<Rightarrow> if s \<noteq> [] then Some s else None
      | None \<Rightarrow> None)"

text \<open>Lines 195 to 208: the audience check; \<open>True\<close> when it returns an error.\<close>

definition audience_rejected :: "Config \<Rightarrow> json_map \<Rightarrow> bool" where
  "audience_rejected config claims =
     (if (case as_string (claims ''aud'') of Some aud \<Rightarrow> aud \<noteq> Audience config | None \<Rightarrow> False)
      then True
      else
        (case as_array (claims ''aud'') of
           Some audArr \<Rightarrow> \<not> audience_found (Audience config) audArr
         | None \<Rightarrow> False))"

text \<open>Lines 186 to 255: from the claims of the verified token to the result.\<close>

definition VerifyToken_claims :: "Config \<Rightarrow> jwt_Claims \<Rightarrow> verify_error + AuthContext" where
  "VerifyToken_claims config verified =
     (case verified of
        OtherClaims \<Rightarrow> Inl InvalidTokenClaims
      | MapClaims claims \<Rightarrow>
         if (case as_string (claims ''iss'') of None \<Rightarrow> True | Some iss \<Rightarrow> iss \<noteq> Issuer config)
         then Inl InvalidIssuer
         else if audience_rejected config claims then Inl InvalidAudience
         else
           (case as_string (claims ''sub'') of
              None \<Rightarrow> Inl MissingSub
            | Some sub \<Rightarrow>
               if sub = [] then Inl MissingSub
               else
                 Inr \<lparr>UserID = sub,
                      OrgID = optional_string_claim claims ''org_id'',
                      Roles = string_list_claim claims ''roles'',
                      Permissions = string_list_claim claims ''permissions'',
                      Email = optional_string_claim claims ''email'',
                      Name = optional_string_claim claims ''name''\<rparr>))"

text \<open>Lines 160 to 184, for a token whose header gave \<open>kid\<close>, and then the claims.\<close>

definition VerifyToken_with_kid ::
  "lib \<Rightarrow> world \<Rightarrow> go_context \<Rightarrow> string \<Rightarrow> JWKSClient \<Rightarrow> Config \<Rightarrow> string \<Rightarrow>
   (verify_error + AuthContext) \<times> JWKSClient \<times> event list" where
  "VerifyToken_with_kid L w ctx tokenString jwksClient config kid =
     (case GetKeySet L w jwksClient ctx of
        (Inl e, c', tr) \<Rightarrow> (Inl (GetJWKSFailed e), c', tr)
      | (Inr keySet, c', tr) \<Rightarrow>
         (case LookupKeyID keySet kid of
            None \<Rightarrow> (Inl (KeyNotFound kid), c', tr)
          | Some key \<Rightarrow>
             (case Raw key of
                Inl e \<Rightarrow> (Inl (PublicKeyFailed e), c', tr)
              | Inr publicKey \<Rightarrow>
                 (case jwt_Parse L (now_jwt w) tokenString (keyfunc L publicKey) of
                    Inl e \<Rightarrow> (Inl (TokenVerificationFailed e), c', tr @ [JwtParse tokenString])
                  | Inr verified \<Rightarrow>
                     (VerifyToken_claims config verified, c', tr @ [JwtParse tokenString])))))"

definition VerifyToken ::
  "lib \<Rightarrow> world \<Rightarrow> go_context \<Rightarrow> string \<Rightarrow> JWKSClient \<Rightarrow> Config \<Rightarrow>
   (verify_error + AuthContext) \<times> JWKSClient \<times> event list" where
  "VerifyToken L w ctx tokenString jwksClient config =
     (case VerifyToken_kid L tokenString of
        Inl e \<Rightarrow> (Inl e, jwksClient, [])
      | Inr kid \<Rightarrow> VerifyToken_with_kid L w ctx tokenString jwksClient config kid)"

subsection \<open>The gin handlers\<close>

text \<open>
  What a handler reads of a \<^verbatim>\<open>gin.Context\<close> is the Authorization header of the request
  (\<^verbatim>\<open>GetHeader\<close> gives the empty string when there is none) and the keys set on the
  context. What it does to the context is the sequence of its method calls:
  \<^verbatim>\<open>c.JSON(code, obj)\<close> with a \<^verbatim>\<open>gin.H\<close> body, \<^verbatim>\<open>c.Abort()\<close>, \<^verbatim>\<open>c.Set(key, value)\<close> and
  \<^verbatim>\<open>c.Next()\<close>. A value stored under a key is a pointer to an \<^verbatim>\<open>AuthContext\<close> (possibly nil)
  or a value of another type.
\<close>

datatype any_value = AuthContextPtr "AuthContext option" | OtherValue

datatype h_value = HString string | HStrings "string list"

type_synonym H = "(string \<times> h_value) list"

record gin_Context =
  Authorization :: string
  Keys :: "string \<rightharpoonup> any_value"

datatype gin_call =
    JSON int H
  | Abort
  | Set string any_value
  | Next

definition StatusUnauthorized :: int where
  "StatusUnauthorized = 401"

definition StatusForbidden :: int where
  "StatusForbidden = 403"

definition HasPrefix :: "string \<Rightarrow> string \<Rightarrow> bool" where
  "HasPrefix s p = (take (length p) s = p)"

definition TrimPrefix :: "string \<Rightarrow> string \<Rightarrow> string" where
  "TrimPrefix s p = (if HasPrefix s p then drop (length p) s else s)"

text \<open>
  The handler returned by \<^verbatim>\<open>AuthMiddleware(jwksClient, config)\<close>; the context handed to
  \<^verbatim>\<open>VerifyToken\<close> is that of the request, which is never nil.
\<close>

definition AuthMiddleware ::
  "lib \<Rightarrow> world \<Rightarrow> JWKSClient \<Rightarrow> Config \<Rightarrow> gin_Context \<Rightarrow>
   gin_call list \<times> JWKSClient \<times> event list" where
  "AuthMiddleware L w jwksClient config c =
     (let authHeader = Authorization c in
      if authHeader = [] \<or> \<not> HasPrefix authHeader ''Bearer ''
      then
        ([JSON StatusUnauthorized
            [(''error'', HString ''Missing or invalid authorization header'')],
          Abort],
         jwksClient, [])
      else
        (let token = TrimPrefix authHeader ''Bearer '' in
         case VerifyToken L w Context token jwksClient config of
           (Inl err, c', tr) \<Rightarrow>
             ([JSON StatusUnauthorized
                 [(''error'', HString ''Invalid token''), (''details'', HString (Error err))],
               Abort],
              c', tr)
         | (Inr authContext, c', tr) \<Rightarrow>
             ([Set ''auth'' (AuthContextPtr (Some authContext)), Next], c', tr)))"

text \<open>The two loops of lines 297 to 310, each with its \<^verbatim>\<open>break\<close>.\<close>

fun found_permission :: "string \<Rightarrow> string list \<Rightarrow> bool" where
  "found_permission required [] = False"
| "found_permission required (perm # perms) =
     (if perm = required then True else found_permission required perms)"

fun hasAll :: "string list \<Rightarrow> string list \<Rightarrow> bool" where
  "hasAll [] permissions = True"
| "hasAll (required # rest) permissions =
     (if found_permission required permissions then hasAll rest permissions else False)"

text \<open>
  The handler returned by \<^verbatim>\<open>RequirePermissions(requiredPermissions)\<close>. The assertion
  \<^verbatim>\<open>authContext.(*AuthContext)\<close> also holds of a nil pointer of that type; the inner loop then
  dereferences it and panics, which is the result \<open>None\<close>. With no required permission the
  pointer is never dereferenced.
\<close>

definition RequirePermissions :: "string list \<Rightarrow> gin_Context \<Rightarrow> gin_call list option" where
  "RequirePermissions requiredPermissions c =
     (case Keys c ''auth'' of
        None \<Rightarrow>
          Some [JSON StatusUnauthorized [(''error'', HString ''Not authenticated'')], Abort]
      | Some OtherValue \<Rightarrow>
          Some [JSON StatusUnauthorized [(''error'', HString ''Invalid auth context'')], Abort]
      | Some (AuthContextPtr None) \<Rightarrow>
          if requiredPermissions = [] then Some [Next] else None
      | Some (AuthContextPtr (Some ctx)) \<Rightarrow>
          if \<not> hasAll requiredPermissions (Permissions ctx)
          then
            Some [JSON StatusForbidden
                    [(''error'', HString ''Insufficient permissions''),
                     (''required'', HStrings requiredPermissions),
                     (''has'', HStrings (Permissions ctx))],
                  Abort]
          else Some [Next])"

definition GetAuthContext :: "gin_Context \<Rightarrow> AuthContext option \<times> bool" where
  "GetAuthContext c =
     (case Keys c ''auth'' of
        None \<Rightarrow> (None, False)
      | Some OtherValue \<Rightarrow> (None, False)
      | Some (AuthContextPtr p) \<Rightarrow> (p, True))"

text \<open>
  The keys of the context after a handler's calls: what the next handler of the chain reads.
\<close>

fun apply_calls :: "gin_call list \<Rightarrow> gin_Context \<Rightarrow> gin_Context" where
  "apply_calls [] c = c"
| "apply_calls (Set k v # calls) c = apply_calls calls (c\<lparr>Keys := (Keys c)(k \<mapsto> v)\<rparr>)"
| "apply_calls (call # calls) c = apply_calls calls c"

subsection \<open>A test double for the libraries\<close>

text \<open>
  The theorems hold for every value of the library parameters. Their instances at concrete
  inputs are evaluated with the test double of this section. Its base64 decoder is the
  unpadded URL-safe decoding of \<^verbatim>\<open>encoding/base64\<close> (carriage returns and line feeds are
  skipped, the trailing bits are not checked, the error names the offending byte offset).
  Its JSON, key-set and token parsers are tables of the libraries' answers on the
  documents used below; the token parser takes the signature \<^verbatim>\<open>c2ln\<close> to verify under the
  key \<^verbatim>\<open>k1\<close>.
\<close>

definition b64_alphabet :: string where
  "b64_alphabet = ''ABCDEFGHIJKLMNOPQRSTUVWXYZabcdefghijklmnopqrstuvwxyz0123456789-_''"

fun index_in :: "char \<Rightarrow> string \<Rightarrow> nat option" where
  "index_in x [] = None"
| "index_in x (y # ys) = (if x = y then Some 0 else map_option Suc (index_in x ys))"

fun sextets :: "string \<Rightarrow> nat \<Rightarrow> nat + nat list" where
  "sextets [] i = Inr []"
| "sextets (x # xs) i =
     (if x = CHR 0x0D \<or> x = CHR 0x0A then sextets xs (Suc i)
      else
        (case index_in x b64_alphabet of
           None \<Rightarrow> Inl i
         | Some v \<Rightarrow> (case sextets xs (Suc i) of Inl j \<Rightarrow> Inl j | Inr vs \<Rightarrow> Inr (v # vs))))"

fun octets :: "nat list \<Rightarrow> nat list" where
  "octets (a # b # c # d # r) =
     (let n = ((a * 64 + b) * 64 + c) * 64 + d
      in [n div 65536, (n div 256) mod 256, n mod 256] @ octets r)"
| "octets [a, b, c] = (let n = (a * 64 + b) * 64 + c in [n div 1024, (n div 4) mod 256])"
| "octets [a, b] = [(a * 64 + b) div 16]"
| "octets r = []"

definition test_b64 :: "string \<Rightarrow> string + string" where
  "test_b64 s =
     (case sextets s 0 of
        Inl i \<Rightarrow> Inl (''illegal base64 data at input byte '' @ fmt_d (int i))
      | Inr vs \<Rightarrow>
         if length vs mod 4 = 1
         then Inl (''illegal base64 data at input byte '' @ fmt_d (int (length s) - 1))
         else Inr (map char_of (octets vs)))"

definition test_header_k1 :: string where
  \<open>test_header_k1 = ''{"alg":"RS256","kid":"k1"}''\<close>

definition test_header_k2 :: string where
  \<open>test_header_k2 = ''{"alg":"RS256","kid":"k2"}''\<close>

definition test_json :: "string \<Rightarrow> string + json_map" where
  "test_json s =
     (if s = test_header_k1 then Inr [''alg'' \<mapsto> JString ''RS256'', ''kid'' \<mapsto> JString ''k1'']
      else if s = test_header_k2 then Inr [''alg'' \<mapsto> JString ''RS256'', ''kid'' \<mapsto> JString ''k2'']
      else Inl ''invalid character'')"

definition test_key :: jwk_key where
  "test_key = \<lparr>KeyID = ''k1'', Raw = Inr (RawKey ''k1-public'')\<rparr>"

definition test_jwks_body :: string where
  \<open>test_jwks_body = ''{"keys":[{"kty":"RSA","kid":"k1","n":"sXch","e":"AQAB"}]}''\<close>

definition test_jwk :: "string \<Rightarrow> string + jwk_set" where
  "test_jwk s = (if s = test_jwks_body then Inr [test_key] else Inl ''failed to unmarshal JWK set'')"

text \<open>
  Two tokens with the header \<^verbatim>\<open>{"alg":"RS256","kid":"k1"}\<close>. The payload of the first is
  \<^verbatim>\<open>{"iss":"http://user-service:3000","sub":"u1","permissions":["files:upload"]}\<close>, with no
  audience; the second has \<^verbatim>\<open>"aud":"backboard"\<close> as well.
\<close>

definition test_token_noaud :: string where
  "test_token_noaud =
     ''eyJhbGciOiJSUzI1NiIsImtpZCI6ImsxIn0'' @ ''.'' @
     ''eyJpc3MiOiJodHRwOi8vdXNlci1zZXJ2aWNlOjMwMDAiLCJzdWIiOiJ1MSIsInBlcm1pc3Npb25zIjpbImZpbGVzOnVwbG9hZCJdfQ''
     @ ''.'' @ ''c2ln''"

definition test_token_aud :: string where
  "test_token_aud =
     ''eyJhbGciOiJSUzI1NiIsImtpZCI6ImsxIn0'' @ ''.'' @
     ''eyJpc3MiOiJodHRwOi8vdXNlci1zZXJ2aWNlOjMwMDAiLCJhdWQiOiJiYWNrYm9hcmQiLCJzdWIiOiJ1MSIsInBlcm1pc3Npb25zIjpbImZpbGVzOnVwbG9hZCJdfQ''
     @ ''.'' @ ''c2ln''"

definition test_claims_noaud :: json_map where
  "test_claims_noaud =
     [''iss'' \<mapsto> JString ''http://user-service:3000'',
      ''sub'' \<mapsto> JString ''u1'',
      ''permissions'' \<mapsto> JArray [JString ''files:upload'']]"

definition test_claims_aud :: json_map where
  "test_claims_aud = test_claims_noaud(''aud'' \<mapsto> JString ''backboard'')"

definition test_jwt ::
  "instant \<Rightarrow> string \<Rightarrow> (jwt_Token \<Rightarrow> string + raw_key) \<Rightarrow> string + jwt_Claims" where
  "test_jwt now tokenString kf =
     (if tokenString = test_token_noaud \<or> tokenString = test_token_aud
      then
        (case kf \<lparr>Method = SigningMethodRSA,
                  Header = [''alg'' \<mapsto> JString ''RS256'', ''kid'' \<mapsto> JString ''k1'']\<rparr> of
           Inl e \<Rightarrow> Inl (''token is unverifiable: error while executing keyfunc: '' @ e)
         | Inr k \<Rightarrow>
            if k = RawKey ''k1-public''
            then Inr (MapClaims (if tokenString = test_token_noaud then test_claims_noaud
                                 else test_claims_aud))
            else Inl ''token signature is invalid: crypto/rsa: verification error'')
      else Inl ''token is malformed: could not base64 decode'')"

definition test_lib :: lib where
  "test_lib =
     \<lparr>b64_DecodeString = test_b64,
      json_Unmarshal = test_json,
      url_Parse = (\<lambda>u. None),
      jwk_ParseReader = test_jwk,
      jwt_Parse = test_jwt,
      fmt_v = (\<lambda>v. case v of Some (JString s) \<Rightarrow> s | _ \<Rightarrow> ''<nil>'')\<rparr>"

text \<open>The configuration that \<^verbatim>\<open>config.Load\<close> builds when no variable is set.\<close>

definition test_config :: Config where
  "test_config =
     \<lparr>JWKSUrl = ''http://user-service:3000/.well-known/jwks.json'',
      Issuer = ''http://user-service:3000'',
      Audience = ''backboard'',
      JWKSCacheTTL = 900\<rparr>"

definition test_client :: JWKSClient where
  "test_client = NewJWKSClient (JWKSUrl test_config) (JWKSCacheTTL test_config)"

text \<open>
  Three answers of the outside world at the instant 2000: the endpoint serves the key set,
  the endpoint answers 500, the endpoint cannot be reached.
\<close>

definition test_world_ok :: world where
  "test_world_ok =
     \<lparr>now1 = 2000, now2 = 2000, now3 = 2000, now_jwt = 2000,
      do_result = Inr \<lparr>StatusCode = 200, Body = test_jwks_body\<rparr>\<rparr>"

definition test_world_500 :: world where
  "test_world_500 =
     \<lparr>now1 = 2000, now2 = 2000, now3 = 2000, now_jwt = 2000,
      do_result = Inr \<lparr>StatusCode = 500, Body = []\<rparr>\<rparr>"

definition test_world_down :: world where
  "test_world_down =
     \<lparr>now1 = 2000, now2 = 2000, now3 = 2000, now_jwt = 2000,
      do_result = Inl ''connection refused''\<rparr>"

text \<open>A client whose cached key set expired at the instant 1000, and one whose cache is fresh.\<close>

definition test_client_stale :: JWKSClient where
  "test_client_stale = test_client\<lparr>cache := Some \<lparr>set_jwks = [test_key], expiresAt = 1000\<rparr>\<rparr>"

definition test_client_fresh :: JWKSClient where
  "test_client_fresh = test_client\<lparr>cache := Some \<lparr>set_jwks = [test_key], expiresAt = 5000\<rparr>\<rparr>"

definition test_gin :: "string \<Rightarrow> gin_Context" where
  "test_gin authHeader = \<lparr>Authorization = authHeader, Keys = Map.empty\<rparr>"

text \<open>
  A much later instant for every clock reading of a world, and the client as the first
  successful fetch at the instant 2000 leaves it (900 seconds of time to live).
\<close>

definition later :: "world \<Rightarrow> world" where
  "later w =
     w\<lparr>now1 := 1000000000000, now2 := 1000000000000, now3 := 1000000000000,
       now_jwt := 1000000000000\<rparr>"

definition test_client_cached :: JWKSClient where
  "test_client_cached =
     test_client\<lparr>cache := Some \<lparr>set_jwks = [test_key], expiresAt = 900000002000\<rparr>\<rparr>"

text \<open>A request context on which \<^verbatim>\<open>AuthMiddleware\<close> has stored a user with the given permissions.\<close>

definition test_auth :: "string list \<Rightarrow> AuthContext" where
  "test_auth ps =
     \<lparr>UserID = ''u1'', OrgID = None, Roles = [], Permissions = ps, Email = None, Name = None\<rparr>"

definition test_gin_auth :: "string list \<Rightarrow> gin_Context" where
  "test_gin_auth ps =
     \<lparr>Authorization = [], Keys = [''auth'' \<mapsto> AuthContextPtr (Some (test_auth ps))]\<rparr>"

section \<open>Properties\<close>

subsection \<open>Permission checks\<close>

lemma found_permission_iff: "found_permission r ps \<longleftrightarrow> r \<in> set ps"
  by (induction ps) auto

lemma hasAll_iff: "hasAll rs ps \<longleftrightarrow> set rs \<subseteq> set ps"
  by (induction rs) (auto simp: found_permission_iff)

lemma test_gin_auth_Keys:
  "Keys (test_gin_auth ps) ''auth'' = Some (AuthContextPtr (Some (test_auth ps)))"
  by (simp add: test_gin_auth_def)

lemma test_auth_Permissions: "Permissions (test_auth ps) = ps"
  by (simp add: test_auth_def)

text \<open>
  C7. On a request that carries an authentication context, the handler of
  \<^verbatim>\<open>RequirePermissions(required)\<close> calls \<^verbatim>\<open>Next\<close> (and nothing else) exactly when every
  required permission is among the permissions of the context. Otherwise it answers 403
  with a body whose fields \<^verbatim>\<open>required\<close> and \<^verbatim>\<open>has\<close> are the required list and the
  permissions of the context, and aborts.
\<close>

theorem RequirePermissions_conjunction:
  assumes "Keys c ''auth'' = Some (AuthContextPtr (Some ctx))"
  shows "(RequirePermissions required c = Some [Next] \<longleftrightarrow>
            set required \<subseteq> set (Permissions ctx)) \<and>
         (\<not> set required \<subseteq> set (Permissions ctx) \<longrightarrow>
            RequirePermissions required c =
              Some [JSON 403 [(''error'', HString ''Insufficient permissions''),
                              (''required'', HStrings required),
                              (''has'', HStrings (Permissions ctx))], Abort])"
  using assms by (simp add: RequirePermissions_def hasAll_iff StatusForbidden_def)

theorem RequirePermissions_conjunction_witness:
  "RequirePermissions [''a'', ''b''] (test_gin_auth [''a'']) =
     Some [JSON 403 [(''error'', HString ''Insufficient permissions''),
                     (''required'', HStrings [''a'', ''b'']), (''has'', HStrings [''a''])], Abort] \<and>
   RequirePermissions [''a'', ''b''] (test_gin_auth [''a'', ''b'', ''c'']) = Some [Next]"
  using RequirePermissions_conjunction [OF test_gin_auth_Keys, of "[''a'', ''b'']" "[''a'']"]
    RequirePermissions_conjunction [OF test_gin_auth_Keys, of "[''a'', ''b'']" "[''a'', ''b'', ''c'']"]
  by (simp add: test_auth_Permissions)

text \<open>
  C10. With an empty list of required permissions the handler calls \<^verbatim>\<open>Next\<close> on every
  request whose \<^verbatim>\<open>auth\<close> key holds a pointer to an authentication context, whatever the
  permissions of that context, and also when the pointer is nil.
\<close>

theorem RequirePermissions_empty:
  assumes "Keys c ''auth'' = Some (AuthContextPtr p)"
  shows "RequirePermissions [] c = Some [Next]"
  using assms by (cases p) (simp_all add: RequirePermissions_def)

theorem RequirePermissions_empty_witness:
  "RequirePermissions [] (test_gin_auth []) = Some [Next] \<and>
   RequirePermissions [] (test_gin_auth [''files:upload'']) = Some [Next]"
  using RequirePermissions_empty [OF test_gin_auth_Keys] by simp

end
